theory Spec2Isabelle
  imports Main
begin

section \<open>Python values of the parameters\<close>

text \<open>
  The module \<^verbatim>\<open>fabtools/git.py\<close> has three functions, \<^verbatim>\<open>clone\<close>, \<^verbatim>\<open>pull\<close> and
  \<^verbatim>\<open>checkout\<close>. Their string parameters (\<^verbatim>\<open>remote_url\<close>, \<^verbatim>\<open>path\<close>, \<^verbatim>\<open>branch\<close>,
  \<^verbatim>\<open>user\<close>) are documented as \<^verbatim>\<open>str\<close> and two of them default to \<^verbatim>\<open>None\<close>, so a
  value of such a parameter is a \<^typ>\<open>string option\<close>: \<^term>\<open>None\<close> is Python's
  \<^verbatim>\<open>None\<close>, \<^term>\<open>Some v\<close> is the string \<^verbatim>\<open>v\<close>. The flags \<^verbatim>\<open>use_sudo\<close> and
  \<^verbatim>\<open>stash\<close> are \<^typ>\<open>bool\<close>.
\<close>

text \<open>
  \<^verbatim>\<open>'%s' % v\<close>: a string is inserted as it is, with no quoting or escaping; \<^verbatim>\<open>None\<close> is
  inserted as the four characters \<^verbatim>\<open>None\<close>.
\<close>

fun percent_s :: "string option \<Rightarrow> string" where
  "percent_s None = ''None''"
| "percent_s (Some v) = v"

text \<open>
  A keyword parameter with a default is either omitted at the call site or given a
  value; an omitted one takes the default of the \<^verbatim>\<open>def\<close> line.
\<close>

datatype 'a arg = Omitted | Given 'a

fun default_arg :: "'a \<Rightarrow> 'a arg \<Rightarrow> 'a" where
  "default_arg d Omitted = d"
| "default_arg d (Given v) = v"

section \<open>The collaborators: execution primitives and the directory scope\<close>

text \<open>
  The module calls three execution primitives, \<^verbatim>\<open>run(cmd)\<close>, \<^verbatim>\<open>run_as_root(cmd)\<close> and
  \<^verbatim>\<open>sudo(cmd, user=user)\<close>. A call is recorded with its arguments.
\<close>

datatype prim =
    Run (cmd_of: string)
  | RunAsRoot (cmd_of: string)
  | Sudo (cmd_of: string) "string option"

text \<open>
  What the module does to its collaborators, in order: it enters a working-directory
  scope, it calls a primitive (recorded with the remote directory in effect at the call),
  it leaves a scope.
\<close>

datatype event =
    ScopeEnter string
  | Exec string prim
  | ScopeExit

text \<open>
  The two exceptions of the module: the \<^verbatim>\<open>ValueError\<close> it raises itself, with its
  message, and whatever a primitive raises when the remote command fails.
\<close>

datatype error =
    ValueError string
  | ExecutionFailure

text \<open>
  The state the functions act on: the remote working directory in effect (Fabric's
  \<^verbatim>\<open>env.cwd\<close>) and the trace of events so far.
\<close>

record remote =
  cwd :: string
  trace :: "event list"

type_synonym outcome = "remote \<Rightarrow> prim \<Rightarrow> bool"

type_synonym action = "remote \<Rightarrow> (error + unit) \<times> remote"

text \<open>
  The primitives are not code of this module: \<^verbatim>\<open>run\<close> and \<^verbatim>\<open>sudo\<close> are imported from
  \<^verbatim>\<open>fabric.api\<close> and \<^verbatim>\<open>run_as_root\<close> from \<^verbatim>\<open>fabtools.utils\<close>, and none of them is among
  the sources. What they do on the remote host is left open; whether a call succeeds is a
  parameter \<open>ok\<close> of the model. A call is appended to the trace with the directory in
  effect; it returns normally when \<open>ok\<close> holds of the state and the call, and raises
  otherwise. A primitive leaves the working directory as it is.
\<close>

definition invoke :: "outcome \<Rightarrow> prim \<Rightarrow> action" where
  "invoke ok c s =
     (if ok s c then Inr () else Inl ExecutionFailure,
      s\<lparr>trace := trace s @ [Exec (cwd s) c]\<rparr>)"

definition run :: "outcome \<Rightarrow> string \<Rightarrow> action" where
  "run ok cmd = invoke ok (Run cmd)"

definition run_as_root :: "outcome \<Rightarrow> string \<Rightarrow> action" where
  "run_as_root ok cmd = invoke ok (RunAsRoot cmd)"

definition sudo :: "outcome \<Rightarrow> string \<Rightarrow> string option \<Rightarrow> action" where
  "sudo ok cmd user = invoke ok (Sudo cmd user)"

text \<open>Two hosts for the examples: one where every command fails, one where none does.\<close>

definition host_down :: outcome where
  "host_down t c = False"

definition host_up :: outcome where
  "host_up t c = True"

text \<open>
  Modelled from the spec: the context manager \<^verbatim>\<open>cd\<close> of \<^verbatim>\<open>fabric.context_managers\<close> is
  not part of the sources. The spec gives its contract: ``given a path, all commands
  issued within the scope run with that path as current directory; restored on scope
  exit''. \<open>with_cd path body\<close> is the statement \<^verbatim>\<open>with cd(path): body\<close>: the directory in
  effect is saved and replaced by \<open>path\<close>, the body runs, and the saved directory is put
  back whether the body returned or raised (Python runs the manager's exit on both
  paths); an exception of the body is passed on to the caller.
\<close>

definition with_cd :: "string \<Rightarrow> action \<Rightarrow> action" where
  "with_cd path body s =
     (let saved = cwd s;
          inside = s\<lparr>cwd := path, trace := trace s @ [ScopeEnter path]\<rparr>;
          (r, s') = body inside
      in (r, s'\<lparr>cwd := saved, trace := trace s' @ [ScopeExit]\<rparr>))"

section \<open>The three operations\<close>

text \<open>
  \<^verbatim>\<open>def clone(remote_url, path=None, use_sudo=False, user=None)\<close>, lines 22 to 51: the
  command is built by two interpolations and handed to one primitive. There is no check
  of the arguments and no directory scope.
\<close>

definition clone :: "outcome \<Rightarrow> string option \<Rightarrow> string option \<Rightarrow> bool \<Rightarrow> string option \<Rightarrow> action" where
  "clone ok remote_url path use_sudo user s =
     (let cmd = ''git clone --quiet '' @ percent_s remote_url;
          cmd = (if path \<noteq> None then cmd @ '' '' @ percent_s path else cmd)
      in if use_sudo \<and> user = None then run_as_root ok cmd s
         else if use_sudo then sudo ok cmd user s
         else run ok cmd s)"

text \<open>
  \<^verbatim>\<open>def pull(path, use_sudo=False, user=None, stash=False)\<close>, lines 54 to 90: the check
  of \<^verbatim>\<open>path\<close> comes first and raises before anything else is done.
\<close>

definition pull :: "outcome \<Rightarrow> string option \<Rightarrow> bool \<Rightarrow> string option \<Rightarrow> bool \<Rightarrow> action" where
  "pull ok path use_sudo user stash s =
     (case path of
        None \<Rightarrow>
          (Inl (ValueError
             ''Path to the working copy is needed to pull from a remote repository.''), s)
      | Some p \<Rightarrow>
          (let cmd = ''git pull'';
               cmd = (if stash then ''(git stash; '' @ cmd @ '')'' else cmd)
           in with_cd p
                (\<lambda>t. if use_sudo \<and> user = None then run_as_root ok cmd t
                     else if use_sudo then sudo ok cmd user t
                     else run ok cmd t) s))"

text \<open>
  \<^verbatim>\<open>def checkout(path, branch="master", use_sudo=False, user=None)\<close>, lines 93 to 126.
\<close>

definition checkout :: "outcome \<Rightarrow> string option \<Rightarrow> string option \<Rightarrow> bool \<Rightarrow> string option \<Rightarrow> action" where
  "checkout ok path branch use_sudo user s =
     (case path of
        None \<Rightarrow>
          (Inl (ValueError
             ''Path to the working copy is needed to checkout a branch''), s)
      | Some p \<Rightarrow>
          (let cmd = ''git checkout '' @ percent_s branch
           in with_cd p
                (\<lambda>t. if use_sudo \<and> user = None then run_as_root ok cmd t
                     else if use_sudo then sudo ok cmd user t
                     else run ok cmd t) s))"

text \<open>
  A call of \<^verbatim>\<open>checkout\<close> as the caller writes it: \<^verbatim>\<open>path\<close> is positional and has no
  default, the three keyword parameters take the defaults of the \<^verbatim>\<open>def\<close> line when they
  are omitted.
\<close>

definition checkout_call ::
  "outcome \<Rightarrow> string option \<Rightarrow> string option arg \<Rightarrow> bool arg \<Rightarrow> string option arg \<Rightarrow> action" where
  "checkout_call ok path branch use_sudo user =
     checkout ok path (default_arg (Some ''master'') branch)
       (default_arg False use_sudo) (default_arg None user)"

section \<open>Notions of the specification\<close>

text \<open>
  The dispatch rule in the words of the specification, to be compared with the branches
  written out in each of the three functions: with \<open>use_sudo\<close> and no user the call is
  \<^verbatim>\<open>run_as_root\<close>, with \<open>use_sudo\<close> and a user it is \<^verbatim>\<open>sudo\<close> as that user, and
  otherwise it is \<^verbatim>\<open>run\<close>.
\<close>

definition spec_primitive :: "bool \<Rightarrow> string option \<Rightarrow> string \<Rightarrow> prim" where
  "spec_primitive use_sudo user cmd =
     (if use_sudo
      then (case user of None \<Rightarrow> RunAsRoot cmd | Some u \<Rightarrow> Sudo cmd (Some u))
      else Run cmd)"

text \<open>An outcome is the local invalid-argument error when it is a \<^verbatim>\<open>ValueError\<close>.\<close>

fun invalid_argument :: "error + unit \<Rightarrow> bool" where
  "invalid_argument (Inl (ValueError m)) = True"
| "invalid_argument r = False"

text \<open>The calls of primitives in a trace, in order.\<close>

fun execs :: "event list \<Rightarrow> prim list" where
  "execs [] = []"
| "execs (Exec d c # es) = c # execs es"
| "execs (e # es) = execs es"

section \<open>Basic facts\<close>

lemmas git_defs = clone_def pull_def checkout_def checkout_call_def with_cd_def
  run_def run_as_root_def sudo_def invoke_def Let_def

lemma execs_append: "execs (es @ fs) = execs es @ execs fs"
  by (induction es rule: execs.induct) simp_all

text \<open>The branches written in each function select the primitive of the rule.\<close>

lemma dispatch_invoke:
  "(if use_sudo \<and> user = None then run_as_root ok cmd t
    else if use_sudo then sudo ok cmd user t
    else run ok cmd t) = invoke ok (spec_primitive use_sudo user cmd) t"
  by (cases user) (simp_all add: spec_primitive_def run_def run_as_root_def sudo_def)

text \<open>One call inside a scope: three events, and the directory is the one before.\<close>

lemma with_cd_invoke:
  "with_cd p (invoke ok c) s =
     (if ok (s\<lparr>cwd := p, trace := trace s @ [ScopeEnter p]\<rparr>) c
      then Inr () else Inl ExecutionFailure,
      s\<lparr>trace := trace s @ [ScopeEnter p, Exec p c, ScopeExit]\<rparr>)"
  by (simp add: with_cd_def invoke_def)

lemma clone_invoke:
  "clone ok remote_url path use_sudo user s =
     invoke ok (spec_primitive use_sudo user
       (''git clone --quiet '' @ percent_s remote_url @
          (case path of None \<Rightarrow> [] | Some q \<Rightarrow> '' '' @ q))) s"
proof (cases path)
  case None
  then show ?thesis
    by (simp add: clone_def dispatch_invoke)
next
  case (Some q)
  then show ?thesis
    by (simp add: clone_def dispatch_invoke)
qed

lemma pull_given:
  "pull ok (Some p) use_sudo user stash s =
     with_cd p (invoke ok (spec_primitive use_sudo user
       (if stash then ''(git stash; git pull)'' else ''git pull''))) s"
proof -
  have "(\<lambda>t. if use_sudo \<and> user = None then run_as_root ok cmd t
             else if use_sudo then sudo ok cmd user t
             else run ok cmd t) = invoke ok (spec_primitive use_sudo user cmd)" for cmd
    by (rule ext) (rule dispatch_invoke)
  then show ?thesis
    by (simp add: pull_def)
qed

lemma checkout_given:
  "checkout ok (Some p) branch use_sudo user s =
     with_cd p (invoke ok (spec_primitive use_sudo user
       (''git checkout '' @ percent_s branch))) s"
proof -
  have "(\<lambda>t. if use_sudo \<and> user = None then run_as_root ok cmd t
             else if use_sudo then sudo ok cmd user t
             else run ok cmd t) = invoke ok (spec_primitive use_sudo user cmd)" for cmd
    by (rule ext) (rule dispatch_invoke)
  then show ?thesis
    by (simp add: checkout_def)
qed

lemma cmd_of_spec_primitive: "cmd_of (spec_primitive use_sudo user cmd) = cmd"
  by (simp add: spec_primitive_def split: option.splits)

section \<open>Selection of the execution primitive\<close>

text \<open>
  C1. In all three operations and for all arguments the primitive is selected by one and
  the same rule: \<open>use_sudo\<close> with \<open>user\<close> \<^verbatim>\<open>None\<close> gives \<^verbatim>\<open>run_as_root(cmd)\<close>, \<open>use_sudo\<close>
  with a user gives \<^verbatim>\<open>sudo(cmd, user=user)\<close>, and everything else gives \<^verbatim>\<open>run(cmd)\<close>.
  The first three conjuncts spell the rule out, the other three say that the single call
  of \<open>clone\<close>, of \<open>pull\<close> and of \<open>checkout\<close> is the one the rule selects for the command
  of the operation. (\<open>pull\<close> and \<open>checkout\<close> with \<open>path\<close> \<^verbatim>\<open>None\<close> execute no command at
  all, so there the path is a string.)
\<close>

theorem dispatch_rule:
  "spec_primitive True None cmd = RunAsRoot cmd
   \<and> spec_primitive True (Some u) cmd = Sudo cmd (Some u)
   \<and> spec_primitive False user' cmd = Run cmd
   \<and> trace (snd (clone ok remote_url path use_sudo user s)) =
       trace s @ [Exec (cwd s) (spec_primitive use_sudo user
         (''git clone --quiet '' @ percent_s remote_url @
           (case path of None \<Rightarrow> [] | Some q \<Rightarrow> '' '' @ q)))]
   \<and> trace (snd (pull ok (Some p) use_sudo user stash s)) =
       trace s @ [ScopeEnter p,
         Exec p (spec_primitive use_sudo user
           (if stash then ''(git stash; git pull)'' else ''git pull'')),
         ScopeExit]
   \<and> trace (snd (checkout ok (Some p) branch use_sudo user s)) =
       trace s @ [ScopeEnter p,
         Exec p (spec_primitive use_sudo user (''git checkout '' @ percent_s branch)),
         ScopeExit]"
proof -
  have rule: "spec_primitive True None cmd = RunAsRoot cmd"
    "spec_primitive True (Some u) cmd = Sudo cmd (Some u)"
    "spec_primitive False user' cmd = Run cmd"
    by (simp_all add: spec_primitive_def)
  have c: "trace (snd (clone ok remote_url path use_sudo user s)) =
       trace s @ [Exec (cwd s) (spec_primitive use_sudo user
         (''git clone --quiet '' @ percent_s remote_url @
           (case path of None \<Rightarrow> [] | Some q \<Rightarrow> '' '' @ q)))]"
    by (simp add: clone_invoke invoke_def)
  have p: "trace (snd (pull ok (Some p) use_sudo user stash s)) =
       trace s @ [ScopeEnter p,
         Exec p (spec_primitive use_sudo user
           (if stash then ''(git stash; git pull)'' else ''git pull'')),
         ScopeExit]"
    by (simp add: pull_given with_cd_invoke)
  have k: "trace (snd (checkout ok (Some p) branch use_sudo user s)) =
       trace s @ [ScopeEnter p,
         Exec p (spec_primitive use_sudo user (''git checkout '' @ percent_s branch)),
         ScopeExit]"
    by (simp add: checkout_given with_cd_invoke)
  from rule c p k show ?thesis
    by blast
qed

text \<open>
  The three examples of the specification: no \<open>use_sudo\<close>, \<open>use_sudo\<close> alone, and
  \<open>use_sudo\<close> as \<^verbatim>\<open>alice\<close>, one for each operation.
\<close>

theorem dispatch_rule_witness:
  "trace (snd (clone (\<lambda>t c. True) (Some ''git://host/repo.git'') None False (Some ''alice'')
       \<lparr>cwd = [], trace = []\<rparr>)) =
     [Exec [] (Run ''git clone --quiet git://host/repo.git'')]
   \<and> trace (snd (pull (\<lambda>t c. True) (Some ''/srv/app'') True None False
       \<lparr>cwd = [], trace = []\<rparr>)) =
     [ScopeEnter ''/srv/app'', Exec ''/srv/app'' (RunAsRoot ''git pull''), ScopeExit]
   \<and> trace (snd (checkout (\<lambda>t c. True) (Some ''/srv/app'') (Some ''develop'') True
       (Some ''alice'') \<lparr>cwd = [], trace = []\<rparr>)) =
     [ScopeEnter ''/srv/app'',
      Exec ''/srv/app'' (Sudo ''git checkout develop'' (Some ''alice'')), ScopeExit]"
  using dispatch_rule [where ok = "\<lambda>t c. True" and remote_url = "Some ''git://host/repo.git''"
      and path = None and use_sudo = False and user = "Some ''alice''"
      and s = "\<lparr>cwd = [], trace = []\<rparr>"]
    dispatch_rule [where ok = "\<lambda>t c. True" and p = "''/srv/app''" and use_sudo = True
      and user = None and stash = False and s = "\<lparr>cwd = [], trace = []\<rparr>"]
    dispatch_rule [where ok = "\<lambda>t c. True" and p = "''/srv/app''" and use_sudo = True
      and user = "Some ''alice''" and branch = "Some ''develop''"
      and s = "\<lparr>cwd = [], trace = []\<rparr>"]
  by (simp add: spec_primitive_def)

section \<open>The command built by clone\<close>

text \<open>
  C2. For every pair of a repository URL and a path, \<open>clone\<close> issues exactly one call
  whose command is \<^verbatim>\<open>git clone --quiet <remote_url>\<close> when \<open>path\<close> is \<^verbatim>\<open>None\<close> and
  \<^verbatim>\<open>git clone --quiet <remote_url> <path>\<close> when it is a string; both values are inserted
  character for character, with nothing escaped.
\<close>

theorem clone_command:
  "(\<exists>c. trace (snd (clone ok (Some url) None use_sudo user s)) = trace s @ [Exec (cwd s) c]
        \<and> cmd_of c = ''git clone --quiet '' @ url)
   \<and> (\<exists>c. trace (snd (clone ok (Some url) (Some q) use_sudo user s)) =
            trace s @ [Exec (cwd s) c]
        \<and> cmd_of c = ''git clone --quiet '' @ url @ '' '' @ q)"
  by (simp add: clone_invoke invoke_def cmd_of_spec_primitive)

section \<open>The check of the path\<close>

text \<open>
  C3. \<open>pull\<close> and \<open>checkout\<close> called with \<open>path\<close> \<^verbatim>\<open>None\<close> raise the \<^verbatim>\<open>ValueError\<close> and
  do nothing else: the state comes back as it was, so the trace has no new event (no
  primitive was called and no directory scope was entered) and the directory is
  untouched. The two messages differ.
\<close>

theorem path_required:
  "pull ok None use_sudo user stash s =
     (Inl (ValueError
        ''Path to the working copy is needed to pull from a remote repository.''), s)
   \<and> checkout ok None branch use_sudo' user' s =
     (Inl (ValueError ''Path to the working copy is needed to checkout a branch''), s)
   \<and> invalid_argument (fst (pull ok None use_sudo user stash s))
   \<and> invalid_argument (fst (checkout ok None branch use_sudo' user' s))
   \<and> trace (snd (pull ok None use_sudo user stash s)) = trace s
   \<and> trace (snd (checkout ok None branch use_sudo' user' s)) = trace s
   \<and> fst (pull ok None use_sudo user stash s)
       \<noteq> fst (checkout ok None branch use_sudo' user' s)"
  by (simp add: pull_def checkout_def)

section \<open>The commands of pull and checkout\<close>

text \<open>
  C4. For every path that is not \<^verbatim>\<open>None\<close>, \<open>pull\<close> enters the scope of that path, issues
  one call there, and leaves the scope; the command of the call is
  \<^verbatim>\<open>(git stash; git pull)\<close> with \<open>stash\<close> and \<^verbatim>\<open>git pull\<close> without.
\<close>

theorem pull_command:
  "(\<exists>c. trace (snd (pull ok (Some p) use_sudo user True s)) =
          trace s @ [ScopeEnter p, Exec p c, ScopeExit]
        \<and> cmd_of c = ''(git stash; git pull)'')
   \<and> (\<exists>c. trace (snd (pull ok (Some p) use_sudo user False s)) =
          trace s @ [ScopeEnter p, Exec p c, ScopeExit]
        \<and> cmd_of c = ''git pull'')"
  by (simp add: pull_given with_cd_invoke cmd_of_spec_primitive)

text \<open>The two examples of the specification, at \<^verbatim>\<open>/srv/app\<close>.\<close>

theorem pull_command_witness:
  "(\<exists>c. trace (snd (pull (\<lambda>t c. True) (Some ''/srv/app'') False None True
          \<lparr>cwd = [], trace = []\<rparr>)) =
          [ScopeEnter ''/srv/app'', Exec ''/srv/app'' c, ScopeExit]
        \<and> cmd_of c = ''(git stash; git pull)'')
   \<and> (\<exists>c. trace (snd (pull (\<lambda>t c. True) (Some ''/srv/app'') False None False
          \<lparr>cwd = [], trace = []\<rparr>)) =
          [ScopeEnter ''/srv/app'', Exec ''/srv/app'' c, ScopeExit]
        \<and> cmd_of c = ''git pull'')"
  using pull_command [where ok = "\<lambda>t c. True" and p = "''/srv/app''" and use_sudo = False
      and user = None and s = "\<lparr>cwd = [], trace = []\<rparr>"]
  by simp

text \<open>
  C5. For every path that is not \<^verbatim>\<open>None\<close> and every branch, \<open>checkout\<close> enters the scope
  of the path, issues one call there whose command is \<^verbatim>\<open>git checkout <branch>\<close>, and
  leaves the scope. A call that gives the branch is that very call of the function, and
  a call that omits it issues \<^verbatim>\<open>git checkout master\<close>.
\<close>

theorem checkout_command:
  "(\<exists>c. trace (snd (checkout ok (Some p) (Some b) use_sudo user s)) =
          trace s @ [ScopeEnter p, Exec p c, ScopeExit]
        \<and> cmd_of c = ''git checkout '' @ b)
   \<and> checkout_call ok (Some p) (Given (Some b)) use_sudo' user' s =
       checkout ok (Some p) (Some b) (default_arg False use_sudo') (default_arg None user') s
   \<and> (\<exists>c. trace (snd (checkout_call ok (Some p) Omitted use_sudo' user' s)) =
          trace s @ [ScopeEnter p, Exec p c, ScopeExit]
        \<and> cmd_of c = ''git checkout master'')"
  by (simp add: checkout_call_def checkout_given with_cd_invoke cmd_of_spec_primitive)

text \<open>The example of the specification: branch \<^verbatim>\<open>develop\<close> at \<^verbatim>\<open>/srv/app\<close>, and no branch.\<close>

theorem checkout_command_witness:
  "(\<exists>c. trace (snd (checkout (\<lambda>t c. True) (Some ''/srv/app'') (Some ''develop'') False None
          \<lparr>cwd = [], trace = []\<rparr>)) =
          [ScopeEnter ''/srv/app'', Exec ''/srv/app'' c, ScopeExit]
        \<and> cmd_of c = ''git checkout develop'')
   \<and> (\<exists>c. trace (snd (checkout_call (\<lambda>t c. True) (Some ''/srv/app'') Omitted Omitted Omitted
          \<lparr>cwd = [], trace = []\<rparr>)) =
          [ScopeEnter ''/srv/app'', Exec ''/srv/app'' c, ScopeExit]
        \<and> cmd_of c = ''git checkout master'')"
  using checkout_command [where ok = "\<lambda>t c. True" and p = "''/srv/app''"
      and b = "''develop''" and use_sudo = False and user = None
      and use_sudo' = Omitted and user' = Omitted and s = "\<lparr>cwd = [], trace = []\<rparr>"]
  by simp

section \<open>The directory scope is left on every path\<close>

text \<open>
  C6, as the code has it. In \<open>pull\<close> and in \<open>checkout\<close> the scope of \<open>path\<close> is left on
  every exit path: whatever the outcome of the command, the directory in effect before
  the call is in effect again after it, and a command run next is recorded after the end
  of the scope and in that earlier directory. This holds in particular when the command
  inside the scope fails: the operation raises the failure and the directory of the
  caller is back all the same. Nothing is said about that directory being different from
  \<open>path\<close>: it is whatever the caller had.
\<close>

theorem scope_restored:
  "cwd (snd (pull ok (Some p) use_sudo user stash s)) = cwd s
   \<and> (\<exists>c. trace (snd (run ok next_cmd (snd (pull ok (Some p) use_sudo user stash s)))) =
          trace s @ [ScopeEnter p, Exec p c, ScopeExit, Exec (cwd s) (Run next_cmd)])
   \<and> fst (pull host_down (Some p) use_sudo user stash s) = Inl ExecutionFailure
   \<and> cwd (snd (pull host_down (Some p) use_sudo user stash s)) = cwd s
   \<and> fst (pull host_up (Some p) use_sudo user stash s) = Inr ()
   \<and> cwd (snd (pull host_up (Some p) use_sudo user stash s)) = cwd s
   \<and> cwd (snd (checkout ok (Some p) branch use_sudo user s)) = cwd s
   \<and> (\<exists>c. trace (snd (run ok next_cmd (snd (checkout ok (Some p) branch use_sudo user s)))) =
          trace s @ [ScopeEnter p, Exec p c, ScopeExit, Exec (cwd s) (Run next_cmd)])
   \<and> fst (checkout host_down (Some p) branch use_sudo user s) = Inl ExecutionFailure
   \<and> cwd (snd (checkout host_down (Some p) branch use_sudo user s)) = cwd s
   \<and> fst (checkout host_up (Some p) branch use_sudo user s) = Inr ()
   \<and> cwd (snd (checkout host_up (Some p) branch use_sudo user s)) = cwd s"
proof -
  have restored: "cwd (snd (with_cd p (invoke f c) s)) = cwd s" for f c
    by (simp add: with_cd_invoke)
  have raised: "fst (with_cd p (invoke host_down c) s) = Inl ExecutionFailure" for c
    by (simp add: with_cd_invoke host_down_def)
  have returned: "fst (with_cd p (invoke host_up c) s) = Inr ()" for c
    by (simp add: with_cd_invoke host_up_def)
  have after: "trace (snd (run ok next_cmd (snd (with_cd p (invoke ok c) s)))) =
      trace s @ [ScopeEnter p, Exec p c, ScopeExit, Exec (cwd s) (Run next_cmd)]" for c
    by (simp add: with_cd_invoke run_def invoke_def)
  show ?thesis
    unfolding pull_given checkout_given
    by (simp add: restored raised returned after)
qed

text \<open>
  A caller working in \<^verbatim>\<open>/home/deploy\<close> pulls and checks out at \<^verbatim>\<open>/srv/app\<close> on a host where
  every command fails: both operations raise the failure, the directory is
  \<^verbatim>\<open>/home/deploy\<close> again, and the next command runs there.
\<close>

theorem scope_restored_witness:
  "fst (pull host_down (Some ''/srv/app'') False None False
        \<lparr>cwd = ''/home/deploy'', trace = []\<rparr>) = Inl ExecutionFailure
   \<and> cwd (snd (pull host_down (Some ''/srv/app'') False None False
        \<lparr>cwd = ''/home/deploy'', trace = []\<rparr>)) = ''/home/deploy''
   \<and> fst (checkout host_down (Some ''/srv/app'') (Some ''develop'') False None
        \<lparr>cwd = ''/home/deploy'', trace = []\<rparr>) = Inl ExecutionFailure
   \<and> cwd (snd (checkout host_down (Some ''/srv/app'') (Some ''develop'') False None
        \<lparr>cwd = ''/home/deploy'', trace = []\<rparr>)) = ''/home/deploy''
   \<and> trace (snd (run host_down ''ls''
        (snd (pull host_down (Some ''/srv/app'') False None False
           \<lparr>cwd = ''/home/deploy'', trace = []\<rparr>)))) =
       [ScopeEnter ''/srv/app'', Exec ''/srv/app'' (Run ''git pull''), ScopeExit,
        Exec ''/home/deploy'' (Run ''ls'')]"
  using scope_restored [where ok = host_down and p = "''/srv/app''" and use_sudo = False
      and user = None and stash = False and branch = "Some ''develop''"
      and next_cmd = "''ls''" and s = "\<lparr>cwd = ''/home/deploy'', trace = []\<rparr>"]
  by (simp add: git_defs)

text \<open>
  C6 as it is worded says more: that after the operation a command run next no longer
  runs in \<open>path\<close>. That fails for a caller who is working in \<open>path\<close> already, as in
  \<^verbatim>\<open>with cd('/srv/app'): pull('/srv/app'); run('ls')\<close>. The caller has entered
  \<^verbatim>\<open>/srv/app\<close>; the pull, and likewise the checkout, fails there and raises; the directory
  put back is the caller's, which is \<^verbatim>\<open>/srv/app\<close>, and the command run next is recorded
  in \<^verbatim>\<open>/srv/app\<close>.
\<close>

theorem scope_restored_counterexample:
  "fst (pull host_down (Some ''/srv/app'') False None False
        \<lparr>cwd = ''/srv/app'', trace = [ScopeEnter ''/srv/app'']\<rparr>) = Inl ExecutionFailure
   \<and> trace (snd (run host_up ''ls''
        (snd (pull host_down (Some ''/srv/app'') False None False
           \<lparr>cwd = ''/srv/app'', trace = [ScopeEnter ''/srv/app'']\<rparr>)))) =
       [ScopeEnter ''/srv/app'',
        ScopeEnter ''/srv/app'', Exec ''/srv/app'' (Run ''git pull''), ScopeExit,
        Exec ''/srv/app'' (Run ''ls'')]
   \<and> fst (checkout host_down (Some ''/srv/app'') (Some ''develop'') False None
        \<lparr>cwd = ''/srv/app'', trace = [ScopeEnter ''/srv/app'']\<rparr>) = Inl ExecutionFailure
   \<and> trace (snd (run host_up ''ls''
        (snd (checkout host_down (Some ''/srv/app'') (Some ''develop'') False None
           \<lparr>cwd = ''/srv/app'', trace = [ScopeEnter ''/srv/app'']\<rparr>)))) =
       [ScopeEnter ''/srv/app'',
        ScopeEnter ''/srv/app'', Exec ''/srv/app'' (Run ''git checkout develop''), ScopeExit,
        Exec ''/srv/app'' (Run ''ls'')]"
  by (simp add: git_defs host_down_def host_up_def)

section \<open>The user is ignored without use_sudo\<close>

text \<open>
  C7. With \<open>use_sudo\<close> false the \<open>user\<close> argument has no effect: two calls of the same
  operation that differ in \<open>user\<close> only have the same outcome and leave the same state,
  hence the same trace, the same primitive and the same command.
\<close>

theorem user_ignored_without_sudo:
  "clone ok remote_url path False user1 s = clone ok remote_url path False user2 s
   \<and> pull ok path False user1 stash s = pull ok path False user2 stash s
   \<and> checkout ok path branch False user1 s = checkout ok path branch False user2 s
   \<and> (\<exists>cmd. trace (snd (clone ok remote_url path False user1 s)) =
               trace s @ [Exec (cwd s) (Run cmd)]
             \<and> trace (snd (clone ok remote_url path False user2 s)) =
               trace s @ [Exec (cwd s) (Run cmd)])"
proof -
  have "clone ok remote_url path False user1 s = clone ok remote_url path False user2 s"
    by (simp add: clone_def)
  moreover have "pull ok path False user1 stash s = pull ok path False user2 stash s"
    by (cases path) (simp_all add: pull_def)
  moreover have
    "checkout ok path branch False user1 s = checkout ok path branch False user2 s"
    by (cases path) (simp_all add: checkout_def)
  moreover have "\<exists>cmd. trace (snd (clone ok remote_url path False user1 s)) =
               trace s @ [Exec (cwd s) (Run cmd)]
             \<and> trace (snd (clone ok remote_url path False user2 s)) =
               trace s @ [Exec (cwd s) (Run cmd)]"
    by (simp add: clone_invoke invoke_def spec_primitive_def)
  ultimately show ?thesis
    by blast
qed

section \<open>One call of one primitive\<close>

text \<open>
  C8. Every invocation that does not raise the local \<^verbatim>\<open>ValueError\<close> calls exactly one
  primitive exactly once: the calls in the trace afterwards are the calls before,
  followed by one more. \<open>clone\<close> never raises that error, so this holds of every call of
  it; for \<open>pull\<close> and \<open>checkout\<close> it holds of every call whose outcome is not the
  invalid-argument error. With \<open>stash\<close> the one call carries the compound command.
\<close>

theorem one_command:
  "(\<exists>c. execs (trace (snd (clone ok remote_url path use_sudo user s))) =
          execs (trace s) @ [c])
   \<and> (\<not> invalid_argument (fst (pull ok path use_sudo user stash s)) \<longrightarrow>
        (\<exists>c. execs (trace (snd (pull ok path use_sudo user stash s))) =
              execs (trace s) @ [c]))
   \<and> (\<not> invalid_argument (fst (checkout ok path branch use_sudo user s)) \<longrightarrow>
        (\<exists>c. execs (trace (snd (checkout ok path branch use_sudo user s))) =
              execs (trace s) @ [c]))
   \<and> (\<exists>c. execs (trace (snd (pull ok (Some p) use_sudo user True s))) =
            execs (trace s) @ [c]
          \<and> cmd_of c = ''(git stash; git pull)'')"
proof -
  have scoped: "execs (trace (snd (with_cd q (invoke ok c) s))) = execs (trace s) @ [c]"
    for q c
    by (simp add: with_cd_invoke execs_append)
  have "\<exists>c. execs (trace (snd (clone ok remote_url path use_sudo user s))) =
          execs (trace s) @ [c]"
    by (simp add: clone_invoke invoke_def execs_append)
  moreover have "\<exists>c. execs (trace (snd (pull ok path use_sudo user stash s))) =
          execs (trace s) @ [c]"
    if "\<not> invalid_argument (fst (pull ok path use_sudo user stash s))"
  proof (cases path)
    case None
    with that show ?thesis
      by (simp add: pull_def)
  next
    case (Some q)
    then show ?thesis
      by (simp add: pull_given scoped)
  qed
  moreover have "\<exists>c. execs (trace (snd (checkout ok path branch use_sudo user s))) =
          execs (trace s) @ [c]"
    if "\<not> invalid_argument (fst (checkout ok path branch use_sudo user s))"
  proof (cases path)
    case None
    with that show ?thesis
      by (simp add: checkout_def)
  next
    case (Some q)
    then show ?thesis
      by (simp add: checkout_given scoped)
  qed
  moreover have "\<exists>c. execs (trace (snd (pull ok (Some p) use_sudo user True s))) =
            execs (trace s) @ [c]
          \<and> cmd_of c = ''(git stash; git pull)''"
    by (simp add: pull_given scoped cmd_of_spec_primitive)
  ultimately show ?thesis
    by blast
qed

text \<open>
  A pull with stash and a checkout at \<^verbatim>\<open>/srv/app\<close>, after one earlier command: neither
  raises the invalid-argument error, and each adds one call.
\<close>

theorem one_command_witness:
  "\<not> invalid_argument (fst (pull (\<lambda>t c. True) (Some ''/srv/app'') False None True
        \<lparr>cwd = [], trace = [Exec [] (Run ''ls'')]\<rparr>))
   \<and> execs (trace (snd (pull (\<lambda>t c. True) (Some ''/srv/app'') False None True
        \<lparr>cwd = [], trace = [Exec [] (Run ''ls'')]\<rparr>))) =
       [Run ''ls'', Run ''(git stash; git pull)'']
   \<and> \<not> invalid_argument (fst (checkout (\<lambda>t c. True) (Some ''/srv/app'') (Some ''develop'')
        False None \<lparr>cwd = [], trace = [Exec [] (Run ''ls'')]\<rparr>))
   \<and> execs (trace (snd (checkout (\<lambda>t c. True) (Some ''/srv/app'') (Some ''develop'')
        False None \<lparr>cwd = [], trace = [Exec [] (Run ''ls'')]\<rparr>))) =
       [Run ''ls'', Run ''git checkout develop'']"
  using one_command [where ok = "\<lambda>t c. True" and path = "Some ''/srv/app''"
      and use_sudo = False and user = None and stash = True
      and branch = "Some ''develop''" and s = "\<lparr>cwd = [], trace = [Exec [] (Run ''ls'')]\<rparr>"]
  by (simp add: git_defs)

section \<open>clone checks nothing and enters no scope\<close>

text \<open>
  C9. \<open>clone\<close> validates nothing. For every \<open>remote_url\<close>, \<^verbatim>\<open>None\<close> and the empty string
  included, and every \<open>path\<close>, it never raises the invalid-argument error: it builds the
  command by interpolation and hands it to one primitive, and its outcome is the outcome
  of that call. \<^verbatim>\<open>None\<close> as URL is interpolated as the word \<^verbatim>\<open>None\<close>, the empty string as
  nothing.
\<close>

theorem clone_no_validation:
  "\<not> invalid_argument (fst (clone ok remote_url path use_sudo user s))
   \<and> (fst (clone ok remote_url path use_sudo user s) = Inr ()
        \<or> fst (clone ok remote_url path use_sudo user s) = Inl ExecutionFailure)
   \<and> (\<exists>c. trace (snd (clone ok remote_url path use_sudo user s)) =
            trace s @ [Exec (cwd s) c]
          \<and> cmd_of c = ''git clone --quiet '' @ percent_s remote_url @
               (case path of None \<Rightarrow> [] | Some q \<Rightarrow> '' '' @ q))
   \<and> (\<exists>c. trace (snd (clone ok None None use_sudo user s)) = trace s @ [Exec (cwd s) c]
          \<and> cmd_of c = ''git clone --quiet None'')
   \<and> (\<exists>c. trace (snd (clone ok (Some []) None use_sudo user s)) =
            trace s @ [Exec (cwd s) c]
          \<and> cmd_of c = ''git clone --quiet '')"
  by (simp add: clone_invoke invoke_def cmd_of_spec_primitive)

text \<open>
  C10. \<open>clone\<close> issues its command without a directory scope: the only event it adds is
  the call, recorded with the directory in effect when \<open>clone\<close> was called, and that
  directory is still in effect afterwards, for all arguments and both outcomes. \<open>pull\<close>
  and \<open>checkout\<close>, in contrast, enter the scope of their path.
\<close>

theorem clone_no_scope:
  "(\<exists>c. trace (snd (clone ok remote_url path use_sudo user s)) =
          trace s @ [Exec (cwd s) c])
   \<and> cwd (snd (clone ok remote_url path use_sudo user s)) = cwd s
   \<and> ScopeEnter p \<in> set (trace (snd (pull ok (Some p) use_sudo user stash s)))
   \<and> ScopeEnter p \<in> set (trace (snd (checkout ok (Some p) branch use_sudo user s)))"
proof -
  have "snd (clone ok remote_url path use_sudo user s) =
      s\<lparr>trace := trace s @ [Exec (cwd s) (spec_primitive use_sudo user
         (''git clone --quiet '' @ percent_s remote_url @
           (case path of None \<Rightarrow> [] | Some q \<Rightarrow> '' '' @ q)))]\<rparr>"
    by (simp add: clone_invoke invoke_def)
  then show ?thesis
    by (simp add: pull_given checkout_given with_cd_invoke)
qed

end
